theory Spec2Isabelle
  imports Complex_Main
begin

section \<open>Data model\<close>

text \<open>
  The training/validation orchestration of
  \<^verbatim>\<open>neural_pipeline/data_processor/data_processor.py\<close>: the classes
  \<^verbatim>\<open>DataProcessor\<close> and \<^verbatim>\<open>TrainDataProcessor\<close>. Methods mutate the object and
  may raise; here every method takes the object's state and returns the outcome together
  with the state at the moment of the return or of the raise.
\<close>

datatype device = Cpu | Cuda0

text \<open>A tensor carries an opaque payload and the device it lives on.\<close>

datatype 'a tensor = Tensor 'a device

text \<open>
  The value under a batch key: a tensor, or a dict (nested to any depth) of tensors. A dict
  is kept as the list of its items, in insertion order.
\<close>

datatype 'a tdata = Leaf "'a tensor" | Dict "(string \<times> 'a tdata) list"

text \<open>A batch is a Python dict; the code reads and assigns the keys 'data' and 'target'.\<close>

type_synonym 'a batch = "string \<rightharpoonup> 'a tdata"

datatype mode = TrainMode | EvalMode

datatype error =
    CheckpointMissing
  | UnpicklingError
  | StateCorrupt
  | KeyError string
  | IndexError
  | MetricsFailure
  | ForwardError
  | LossError

text \<open>
  The numpy arrays of the loss histories. Only two shapes occur: a 0-dimensional array,
  which holds exactly one element, and a 1-dimensional array.
\<close>

datatype ndarray = Arr0 real | Arr1 "real list"

text \<open>
  The steps of one batch, logged in the order the code performs them (a ghost field of the
  state). \<open>Step\<close> records the gradient contributions that are accumulated at the
  moment the optimizer step is applied.
\<close>

datatype 'g event =
    ZeroGrad
  | Forward
  | Metrics
  | Loss
  | Backward
  | Step "'g list"
  | HistoryAppend bool

text \<open>
  The optimizer object (a \<^verbatim>\<open>torch.optim\<close> optimizer, outside this repository), with what
  the code touches: its serialisable state (the dict \<^verbatim>\<open>state_dict()\<close> returns), its
  parameter groups (each a dict with an 'lr' entry), and the gradients accumulated on the
  parameters it optimises, as the list of the contributions added since the last reset.
\<close>

record ('g, 'v) optimizer_obj =
  opt_state :: "(string \<times> 'v) list"
  param_groups :: "(string \<rightharpoonup> real) list"
  grads :: "'g list"

text \<open>
  The collaborators whose code is outside this repository, as parameters: the model's
  forward pass (it sees the model's mode, whether gradient tracking is enabled, the weights
  and the input), the metrics processor, the criterion (it returns the scalar loss value and
  the gradient contribution a backward pass of that loss adds), and the optimizer's update
  rule (from its state, its parameter groups and the accumulated gradients to the new
  optimizer state and weights). Each of the first three may raise.
\<close>

record ('a, 'o, 'w, 'g, 'v) collaborators =
  forward :: "mode \<Rightarrow> bool \<Rightarrow> 'w \<Rightarrow> 'a tdata \<Rightarrow> error + 'o"
  calc_metrics :: "'o \<Rightarrow> 'a tdata \<Rightarrow> bool \<Rightarrow> error option"
  criterion :: "'o \<Rightarrow> 'a tdata \<Rightarrow> error + real \<times> 'g"
  apply_step :: "(string \<times> 'v) list \<Rightarrow> (string \<rightharpoonup> real) list \<Rightarrow> 'g list \<Rightarrow> 'w
                 \<Rightarrow> (string \<times> 'v) list \<times> 'w"

text \<open>
  The fields of a \<^verbatim>\<open>TrainDataProcessor\<close>: \<open>weights\<close> and \<open>model_mode\<close> are the wrapped
  model, \<open>learning_rate\<close> is the value of the learning-rate holder.
\<close>

record ('w, 'g, 'v) processor =
  is_cuda :: bool
  weights :: "'w"
  model_mode :: mode
  optimizer :: "('g, 'v) optimizer_obj"
  learning_rate :: real
  epoch_num :: int
  val_loss_values :: ndarray
  train_loss_values :: ndarray
  calls :: "'g event list"

text \<open>A file of the checkpoint: absent, present but unreadable, or present with a content.\<close>

datatype 'x artifact = Absent | Corrupt | Content 'x

text \<open>
  The JSON object of the data-processor state file, at the two keys the code reads,
  'last_epoch_idx' (an integer) and 'lr' (a float): a key may be missing from a document
  that parses.
\<close>

record dp_state =
  json_last_epoch_idx :: "int option"
  json_lr :: "real option"

text \<open>The three files the file-structure manager resolves.\<close>

record ('w, 'v) file_struct =
  weights_file :: "'w artifact"
  optimizer_state_file :: "(string \<times> 'v) list artifact"
  data_processor_state_file :: "dp_state artifact"

section \<open>numpy\<close>

text \<open>\<^verbatim>\<open>np.array([])\<close>: the empty 1-dimensional array.\<close>

definition np_array_empty :: ndarray where
  "np_array_empty = Arr1 []"

text \<open>
  \<^verbatim>\<open>np.ndarray([])\<close>: the argument is the shape, so this is an array of shape \<open>()\<close>:
  0-dimensional, with one element that is not initialised. The parameter is whatever the
  memory held.
\<close>

definition np_ndarray_shape_empty :: "real \<Rightarrow> ndarray" where
  "np_ndarray_shape_empty u = Arr0 u"

fun ravel :: "ndarray \<Rightarrow> real list" where
  "ravel (Arr0 x) = [x]"
| "ravel (Arr1 xs) = xs"

text \<open>\<^verbatim>\<open>np.append(arr, values)\<close> without an axis flattens both and concatenates.\<close>

definition np_append :: "ndarray \<Rightarrow> ndarray \<Rightarrow> ndarray" where
  "np_append arr vals = Arr1 (ravel arr @ ravel vals)"

text \<open>\<^verbatim>\<open>arr[-1]\<close>: IndexError on an empty and on a 0-dimensional array.\<close>

fun getitem_last :: "ndarray \<Rightarrow> error + real" where
  "getitem_last (Arr0 x) = Inl IndexError"
| "getitem_last (Arr1 xs) = (if xs = [] then Inl IndexError else Inr (last xs))"

section \<open>Collaborators\<close>

text \<open>\<^verbatim>\<open>v.to(dev)\<close> on a tensor.\<close>

fun to :: "device \<Rightarrow> 'a tensor \<Rightarrow> 'a tensor" where
  "to dev (Tensor a d) = Tensor a dev"

text \<open>
  Modelled from the spec: \<^verbatim>\<open>dict_recursive_bypass\<close> of \<^verbatim>\<open>neural_pipeline/utils/utils.py\<close>,
  which is not among the sources. The transfer goes recursively through nested mappings and
  reaches every leaf: a new dict with the same keys, \<open>on_node\<close> applied to every leaf.
\<close>

function (sequential) dict_recursive_bypass ::
  "(string \<times> 'a tdata) list \<Rightarrow> ('a tensor \<Rightarrow> 'a tensor) \<Rightarrow> (string \<times> 'a tdata) list" where
  "dict_recursive_bypass [] on_node = []"
| "dict_recursive_bypass ((k, Dict d) # rest) on_node =
     (k, Dict (dict_recursive_bypass d on_node)) # dict_recursive_bypass rest on_node"
| "dict_recursive_bypass ((k, Leaf t) # rest) on_node =
     (k, Leaf (on_node t)) # dict_recursive_bypass rest on_node"
  by pat_completeness auto
termination
  by (relation "measure (\<lambda>(kvs, f). size_list (size_prod (\<lambda>k. 0) size) kvs)") auto

text \<open>
  The optimizer's methods. \<^verbatim>\<open>zero_grad()\<close> drops the accumulated gradients,
  \<^verbatim>\<open>loss.backward()\<close> adds the contribution of this loss to them, \<^verbatim>\<open>step()\<close> applies the
  update rule to what is accumulated. \<^verbatim>\<open>state_dict()\<close> returns the serialisable state and
  \<^verbatim>\<open>load_state_dict(d)\<close> replaces it.
\<close>

definition zero_grad :: "('g, 'v) optimizer_obj \<Rightarrow> ('g, 'v) optimizer_obj" where
  "zero_grad opt = opt\<lparr>grads := []\<rparr>"

definition backward :: "'g \<Rightarrow> ('g, 'v) optimizer_obj \<Rightarrow> ('g, 'v) optimizer_obj" where
  "backward g opt = opt\<lparr>grads := grads opt @ [g]\<rparr>"

definition state_dict :: "('g, 'v) optimizer_obj \<Rightarrow> (string \<times> 'v) list" where
  "state_dict opt = opt_state opt"

definition load_state_dict ::
  "(string \<times> 'v) list \<Rightarrow> ('g, 'v) optimizer_obj \<Rightarrow> ('g, 'v) optimizer_obj" where
  "load_state_dict d opt = opt\<lparr>opt_state := d\<rparr>"

definition step ::
  "('a, 'o, 'w, 'g, 'v) collaborators \<Rightarrow> ('w, 'g, 'v) processor \<Rightarrow> ('w, 'g, 'v) processor" where
  "step env s =
     (let opt = optimizer s;
          r = apply_step env (opt_state opt) (param_groups opt) (grads opt) (weights s)
      in s\<lparr>weights := snd r, optimizer := opt\<lparr>opt_state := fst r\<rparr>,
            calls := calls s @ [Step (grads opt)]\<rparr>)"

text \<open>
  Modelled from the spec: \<^verbatim>\<open>Model.load_weights\<close> and \<^verbatim>\<open>Model.save_weights\<close> of
  \<^verbatim>\<open>neural_pipeline/data_processor/model.py\<close>, which is not among the sources. The
  wrapper restores the weights and fails with \<open>CheckpointMissing\<close> if the weight
  artifact is absent or corrupt; saving writes the weights artifact.
\<close>

definition load_weights ::
  "('w, 'v) file_struct \<Rightarrow> ('w, 'g, 'v) processor \<Rightarrow> error + ('w, 'g, 'v) processor" where
  "load_weights fs s =
     (case weights_file fs of
        Content w \<Rightarrow> Inr (s\<lparr>weights := w\<rparr>)
      | Absent \<Rightarrow> Inl CheckpointMissing
      | Corrupt \<Rightarrow> Inl CheckpointMissing)"

definition save_weights ::
  "('w, 'g, 'v) processor \<Rightarrow> ('w, 'v) file_struct \<Rightarrow> ('w, 'v) file_struct" where
  "save_weights s fs = fs\<lparr>weights_file := Content (weights s)\<rparr>"

section \<open>DataProcessor\<close>

text \<open>\<^verbatim>\<open>DataProcessor._process_data\<close>\<close>

fun process_data :: "'a tdata \<Rightarrow> 'a tdata" where
  "process_data (Dict d) = Dict (dict_recursive_bypass d (to Cuda0))"
| "process_data (Leaf t) = Leaf (to Cuda0 t)"

text \<open>
  The local function \<^verbatim>\<open>make_predict\<close>, the same in both \<^verbatim>\<open>predict\<close> methods. The
  assignment to \<^verbatim>\<open>data['data']\<close> changes the caller's dict, which is returned. A missing
  key raises KeyError at the first read.
\<close>

definition make_predict ::
  "('a, 'o, 'w, 'g, 'v) collaborators \<Rightarrow> bool \<Rightarrow> 'a batch \<Rightarrow> ('w, 'g, 'v) processor
   \<Rightarrow> (error + 'o) \<times> 'a batch \<times> ('w, 'g, 'v) processor" where
  "make_predict env grad_enabled data s =
     (case data ''data'' of
        None \<Rightarrow> (Inl (KeyError ''data''), data, s)
      | Some d \<Rightarrow>
          (let d' = (if is_cuda s then process_data d else d);
               data' = (if is_cuda s then data(''data'' \<mapsto> d') else data)
           in (forward env (model_mode s) grad_enabled (weights s) d', data',
               s\<lparr>calls := calls s @ [Forward]\<rparr>)))"

text \<open>\<^verbatim>\<open>DataProcessor.predict\<close>: evaluation mode, no gradient tracking.\<close>

definition DataProcessor_predict ::
  "('a, 'o, 'w, 'g, 'v) collaborators \<Rightarrow> 'a batch \<Rightarrow> ('w, 'g, 'v) processor
   \<Rightarrow> (error + 'o) \<times> 'a batch \<times> ('w, 'g, 'v) processor" where
  "DataProcessor_predict env data s = make_predict env False data (s\<lparr>model_mode := EvalMode\<rparr>)"

text \<open>\<^verbatim>\<open>DataProcessor.load\<close>\<close>

definition DataProcessor_load ::
  "('w, 'v) file_struct \<Rightarrow> ('w, 'g, 'v) processor \<Rightarrow> error + ('w, 'g, 'v) processor" where
  "DataProcessor_load fs s = load_weights fs s"

section \<open>TrainDataProcessor\<close>

text \<open>
  \<^verbatim>\<open>TrainDataProcessor.__init__\<close> over a model (its weights and current mode), the
  optimizer and the learning-rate holder of the train config: epoch 0 and two empty
  histories. Where the model and the criterion live is not part of the state.
\<close>

definition init ::
  "bool \<Rightarrow> 'w \<Rightarrow> mode \<Rightarrow> ('g, 'v) optimizer_obj \<Rightarrow> real \<Rightarrow> ('w, 'g, 'v) processor" where
  "init cuda w m opt holder =
     \<lparr>is_cuda = cuda, weights = w, model_mode = m, optimizer = opt, learning_rate = holder,
      epoch_num = 0, val_loss_values = np_array_empty, train_loss_values = np_array_empty,
      calls = []\<rparr>"

text \<open>\<^verbatim>\<open>TrainDataProcessor.predict\<close>\<close>

definition predict ::
  "('a, 'o, 'w, 'g, 'v) collaborators \<Rightarrow> 'a batch \<Rightarrow> bool \<Rightarrow> ('w, 'g, 'v) processor
   \<Rightarrow> (error + 'o) \<times> 'a batch \<times> ('w, 'g, 'v) processor" where
  "predict env data is_train s =
     (if is_train then make_predict env True data (s\<lparr>model_mode := TrainMode\<rparr>)
      else DataProcessor_predict env data (s\<lparr>model_mode := EvalMode\<rparr>))"

text \<open>
  \<^verbatim>\<open>TrainDataProcessor.process_batch\<close>. The result is the exception raised (if any), the
  caller's batch dict after the call and the object's state.
\<close>

definition process_batch ::
  "('a, 'o, 'w, 'g, 'v) collaborators \<Rightarrow> 'a batch \<Rightarrow> bool \<Rightarrow> ('w, 'g, 'v) processor
   \<Rightarrow> error option \<times> 'a batch \<times> ('w, 'g, 'v) processor" where
  "process_batch env batch is_train s =
     (case (if is_cuda s
            then (case batch ''target'' of
                    None \<Rightarrow> Inl (KeyError ''target'')
                  | Some t \<Rightarrow> Inr (batch(''target'' \<mapsto> process_data t)))
            else Inr batch) of
        Inl e \<Rightarrow> (Some e, batch, s)
      | Inr b1 \<Rightarrow>
          (let s1 = (if is_train
                     then s\<lparr>optimizer := zero_grad (optimizer s), calls := calls s @ [ZeroGrad]\<rparr>
                     else s)
           in case predict env b1 is_train s1 of
                (Inl e, b2, s2) \<Rightarrow> (Some e, b2, s2)
              | (Inr res, b2, s2) \<Rightarrow>
                  (case b2 ''target'' of
                     None \<Rightarrow> (Some (KeyError ''target''), b2, s2)
                   | Some tgt \<Rightarrow>
                       (let s3 = s2\<lparr>calls := calls s2 @ [Metrics]\<rparr>
                        in case calc_metrics env res tgt is_train of
                             Some e \<Rightarrow> (Some e, b2, s3)
                           | None \<Rightarrow>
                               (let s4 = s3\<lparr>calls := calls s3 @ [Loss]\<rparr>
                                in case criterion env res tgt of
                                     Inl e \<Rightarrow> (Some e, b2, s4)
                                   | Inr (loss_value, g) \<Rightarrow>
                                       (let s5 = (if is_train
                                                  then step env
                                                         (s4\<lparr>optimizer := backward g (optimizer s4),
                                                             calls := calls s4 @ [Backward]\<rparr>)
                                                  else s4);
                                            loss_arr = Arr0 loss_value;
                                            s6 = (if is_train
                                                  then s5\<lparr>train_loss_values :=
                                                            np_append (train_loss_values s5) loss_arr\<rparr>
                                                  else s5\<lparr>val_loss_values :=
                                                            np_append (val_loss_values s5) loss_arr\<rparr>)
                                        in (None, b2,
                                            s6\<lparr>calls := calls s6 @ [HistoryAppend is_train]\<rparr>)))))))"

text \<open>
  The two loops of \<^verbatim>\<open>train_epoch\<close>: every batch goes through \<^verbatim>\<open>process_batch\<close>, then
  the progress bar reads the last element of the history of that phase. An exception ends
  the loop.
\<close>

fun run_batches ::
  "('a, 'o, 'w, 'g, 'v) collaborators \<Rightarrow> bool \<Rightarrow> 'a batch list \<Rightarrow> ('w, 'g, 'v) processor
   \<Rightarrow> error option \<times> ('w, 'g, 'v) processor" where
  "run_batches env is_train [] s = (None, s)"
| "run_batches env is_train (batch # rest) s =
     (case process_batch env batch is_train s of
        (Some e, b', s') \<Rightarrow> (Some e, s')
      | (None, b', s') \<Rightarrow>
          (case getitem_last (if is_train then train_loss_values s' else val_loss_values s') of
             Inl e \<Rightarrow> (Some e, s')
           | Inr shown \<Rightarrow> run_batches env is_train rest s'))"

text \<open>
  \<^verbatim>\<open>TrainDataProcessor.train_epoch\<close>; \<open>stage_name\<close> only names the progress bars.
\<close>

definition train_epoch ::
  "('a, 'o, 'w, 'g, 'v) collaborators \<Rightarrow> 'a batch list \<Rightarrow> 'a batch list \<Rightarrow> int \<Rightarrow> string option
   \<Rightarrow> ('w, 'g, 'v) processor \<Rightarrow> error option \<times> ('w, 'g, 'v) processor" where
  "train_epoch env train_dataloader validation_dataloader epoch_idx stage_name s =
     (case run_batches env True train_dataloader s of
        (Some e, s1) \<Rightarrow> (Some e, s1)
      | (None, s1) \<Rightarrow>
          (case run_batches env False validation_dataloader s1 of
             (Some e, s2) \<Rightarrow> (Some e, s2)
           | (None, s2) \<Rightarrow> (None, s2\<lparr>epoch_num := epoch_idx\<rparr>)))"

text \<open>\<^verbatim>\<open>TrainDataProcessor.update_lr\<close>\<close>

definition update_lr :: "real \<Rightarrow> ('w, 'g, 'v) processor \<Rightarrow> ('w, 'g, 'v) processor" where
  "update_lr new_lr s =
     s\<lparr>optimizer := (optimizer s)
         \<lparr>param_groups := map (\<lambda>param_group. param_group(''lr'' \<mapsto> new_lr))
                               (param_groups (optimizer s))\<rparr>\<rparr>"

definition get_last_epoch_idx :: "('w, 'g, 'v) processor \<Rightarrow> int" where
  "get_last_epoch_idx s = epoch_num s"

text \<open>\<^verbatim>\<open>TrainDataProcessor.get_state\<close>: the pair of the entries 'weights' and 'optimizer'.\<close>

definition get_state :: "('w, 'g, 'v) processor \<Rightarrow> 'w \<times> (string \<times> 'v) list" where
  "get_state s = (weights s, state_dict (optimizer s))"

text \<open>
  \<^verbatim>\<open>TrainDataProcessor.load\<close>. A file that is absent raises at the read (FileNotFoundError,
  the spec's CheckpointMissing); the state returned with an error is the object as the
  exception leaves it. The epoch counter is assigned as soon as the document has yielded
  'last_epoch_idx', before 'lr' is read: a document without 'lr' raises KeyError with the
  counter already set.
\<close>

definition load ::
  "('w, 'v) file_struct \<Rightarrow> ('w, 'g, 'v) processor \<Rightarrow> error option \<times> ('w, 'g, 'v) processor" where
  "load fs s =
     (case DataProcessor_load fs s of
        Inl e \<Rightarrow> (Some e, s)
      | Inr s1 \<Rightarrow>
          (case optimizer_state_file fs of
             Absent \<Rightarrow> (Some CheckpointMissing, s1)
           | Corrupt \<Rightarrow> (Some UnpicklingError, s1)
           | Content blob \<Rightarrow>
               (let kept = filter (\<lambda>(k, v). k \<in> set (map fst (state_dict (optimizer s1)))) blob;
                    s2 = s1\<lparr>optimizer := load_state_dict kept (optimizer s1)\<rparr>
                in case data_processor_state_file fs of
                     Absent \<Rightarrow> (Some CheckpointMissing, s2)
                   | Corrupt \<Rightarrow> (Some StateCorrupt, s2)
                   | Content dp \<Rightarrow>
                       (case json_last_epoch_idx dp of
                          None \<Rightarrow> (Some (KeyError ''last_epoch_idx''), s2)
                        | Some last_epoch_idx \<Rightarrow>
                            (let s3 = s2\<lparr>epoch_num := last_epoch_idx\<rparr>
                             in case json_lr dp of
                                  None \<Rightarrow> (Some (KeyError ''lr''), s3)
                                | Some lr \<Rightarrow>
                                    (let s4 = update_lr lr s3
                                     in (None, s4\<lparr>learning_rate := lr\<rparr>)))))))"

text \<open>
  \<^verbatim>\<open>TrainDataProcessor.save_state\<close>: the optimizer state, then the JSON document, then
  the weights. The object itself does not change.
\<close>

definition save_state :: "('w, 'g, 'v) processor \<Rightarrow> ('w, 'v) file_struct \<Rightarrow> ('w, 'v) file_struct" where
  "save_state s fs =
     (let fs1 = fs\<lparr>optimizer_state_file := Content (state_dict (optimizer s))\<rparr>;
          fs2 = fs1\<lparr>data_processor_state_file :=
                      Content \<lparr>json_last_epoch_idx = Some (epoch_num s),
                               json_lr = Some (learning_rate s)\<rparr>\<rparr>
      in save_weights s fs2)"

text \<open>\<^verbatim>\<open>TrainDataProcessor.get_losses\<close>: the dict it returns.\<close>

definition get_losses :: "('w, 'g, 'v) processor \<Rightarrow> (string \<rightharpoonup> ndarray)" where
  "get_losses s = [''train'' \<mapsto> val_loss_values s, ''validation'' \<mapsto> train_loss_values s]"

text \<open>
  \<^verbatim>\<open>TrainDataProcessor.reset_losses\<close>: two calls of \<^verbatim>\<open>np.ndarray([])\<close>; \<open>u_val\<close> and
  \<open>u_train\<close> are the uninitialised elements of the two new arrays.
\<close>

definition reset_losses :: "real \<Rightarrow> real \<Rightarrow> ('w, 'g, 'v) processor \<Rightarrow> ('w, 'g, 'v) processor" where
  "reset_losses u_val u_train s =
     s\<lparr>val_loss_values := np_ndarray_shape_empty u_val,
       train_loss_values := np_ndarray_shape_empty u_train\<rparr>"

section \<open>Observations used by the statements\<close>

text \<open>The leaf tensors of a batch value, in order, and what a tensor holds and where.\<close>

primrec leaves :: "'a tdata \<Rightarrow> 'a tensor list" where
  "leaves (Leaf t) = [t]"
| "leaves (Dict kvs) = concat (map snd (map (map_prod id leaves) kvs))"

fun device_of :: "'a tensor \<Rightarrow> device" where
  "device_of (Tensor a d) = d"

fun payload :: "'a tensor \<Rightarrow> 'a" where
  "payload (Tensor a d) = a"

text \<open>The learning rates of the optimizer's parameter groups, one lookup of 'lr' per group.\<close>

definition group_lrs :: "('w, 'g, 'v) processor \<Rightarrow> real option list" where
  "group_lrs s = map (\<lambda>param_group. param_group ''lr'') (param_groups (optimizer s))"

text \<open>The keys of a dict kept as a list of items.\<close>

definition keys :: "(string \<times> 'v) list \<Rightarrow> string set" where
  "keys d = set (map fst d)"

section \<open>Intermediate points of \<open>process_batch\<close>\<close>

text \<open>
  The caller's batch and the object's state at the points of \<^verbatim>\<open>process_batch\<close> where an
  exception can leave it, written out from the body of the method; the lemmas on
  \<open>process_batch\<close> below relate each outcome of the method to one of them.
  \<open>mode_for\<close> is the mode \<^verbatim>\<open>predict\<close> puts the model in, \<open>at_target\<close> the batch
  after the assignment to 'target', \<open>at_data\<close> the batch after the assignment to 'data',
  \<open>after_reset\<close> the state after the gradient reset, \<open>after_forward\<close> the state when
  the forward pass has been called, \<open>completed\<close> the state at the normal return.
\<close>

definition mode_for :: "bool \<Rightarrow> mode" where
  "mode_for is_train = (if is_train then TrainMode else EvalMode)"

definition at_target :: "'a batch \<Rightarrow> ('w, 'g, 'v) processor \<Rightarrow> 'a batch" where
  "at_target batch s =
     (if is_cuda s
      then (case batch ''target'' of
              None \<Rightarrow> batch
            | Some t \<Rightarrow> batch(''target'' \<mapsto> process_data t))
      else batch)"

definition at_data :: "'a batch \<Rightarrow> ('w, 'g, 'v) processor \<Rightarrow> 'a batch" where
  "at_data batch s =
     (if is_cuda s
      then (case batch ''data'' of
              None \<Rightarrow> at_target batch s
            | Some d \<Rightarrow> (at_target batch s)(''data'' \<mapsto> process_data d))
      else batch)"

definition after_reset :: "bool \<Rightarrow> ('w, 'g, 'v) processor \<Rightarrow> ('w, 'g, 'v) processor" where
  "after_reset is_train s =
     (if is_train
      then s\<lparr>optimizer := zero_grad (optimizer s), calls := calls s @ [ZeroGrad]\<rparr>
      else s)"

definition after_forward :: "bool \<Rightarrow> ('w, 'g, 'v) processor \<Rightarrow> ('w, 'g, 'v) processor" where
  "after_forward is_train s =
     (after_reset is_train s)\<lparr>model_mode := mode_for is_train,
        calls := calls (after_reset is_train s) @ [Forward]\<rparr>"

definition completed ::
  "('a, 'o, 'w, 'g, 'v) collaborators \<Rightarrow> bool \<Rightarrow> real \<Rightarrow> 'g \<Rightarrow> ('w, 'g, 'v) processor
   \<Rightarrow> ('w, 'g, 'v) processor" where
  "completed env is_train v g s =
     (let s4 = (after_forward is_train s)
                 \<lparr>calls := calls (after_forward is_train s) @ [Metrics, Loss]\<rparr>
      in if is_train
         then (let s5 = step env (s4\<lparr>optimizer := backward g (optimizer s4),
                                      calls := calls s4 @ [Backward]\<rparr>)
               in s5\<lparr>train_loss_values := np_append (train_loss_values s5) (Arr0 v),
                     calls := calls s5 @ [HistoryAppend True]\<rparr>)
         else s4\<lparr>val_loss_values := np_append (val_loss_values s4) (Arr0 v),
                 calls := calls s4 @ [HistoryAppend False]\<rparr>)"


section \<open>Concrete collaborators and inputs\<close>

text \<open>
  Collaborators over natural numbers: the forward pass returns the weights, the criterion
  returns the output as loss value and as gradient contribution, the update rule adds the
  accumulated gradients to the weights; the metrics processor returns normally.
\<close>

definition demo_env :: "(nat, nat, nat, nat, nat) collaborators" where
  "demo_env =
     \<lparr>forward = (\<lambda>m grad_enabled w d. Inr w),
      calc_metrics = (\<lambda>res tgt is_train. None),
      criterion = (\<lambda>res tgt. Inr (real res, res)),
      apply_step = (\<lambda>st groups gs w. (st, w + sum_list gs))\<rparr>"

text \<open>The same collaborators with a metrics processor that raises.\<close>

definition failing_metrics_env :: "(nat, nat, nat, nat, nat) collaborators" where
  "failing_metrics_env = demo_env\<lparr>calc_metrics := (\<lambda>res tgt is_train. Some MetricsFailure)\<rparr>"

text \<open>
  An optimizer with one parameter group at learning rate 0.1, one state entry, and a
  gradient contribution left over from earlier work.
\<close>

definition demo_optimizer :: "(nat, nat) optimizer_obj" where
  "demo_optimizer =
     \<lparr>opt_state = [(''state'', 7)], param_groups = [[''lr'' \<mapsto> 1 / 10]], grads = [5]\<rparr>"

text \<open>A new processor with device acceleration, weights 3 and a holder at 0.1.\<close>

definition demo_processor :: "(nat, nat, nat) processor" where
  "demo_processor = init True 3 TrainMode demo_optimizer (1 / 10)"

definition demo_batch :: "nat batch" where
  "demo_batch =
     [''data'' \<mapsto> Leaf (Tensor 1 Cpu),
      ''target'' \<mapsto> Dict [(''mask'', Leaf (Tensor 2 Cpu)), (''aux'', Dict [(''w'', Leaf (Tensor 4 Cpu))])]]"

text \<open>No checkpoint on disk.\<close>

definition no_files :: "(nat, nat) file_struct" where
  "no_files =
     \<lparr>weights_file = Absent, optimizer_state_file = Absent, data_processor_state_file = Absent\<rparr>"

text \<open>
  A checkpoint whose optimizer blob has more keys than \<open>demo_optimizer\<close> has.
\<close>

definition stale_files :: "(nat, nat) file_struct" where
  "stale_files =
     \<lparr>weights_file = Content 9,
      optimizer_state_file = Content [(''momentum'', 1), (''state'', 2), (''extra'', 3)],
      data_processor_state_file
        = Content \<lparr>json_last_epoch_idx = Some 4, json_lr = Some (1 / 100)\<rparr>\<rparr>"

text \<open>A checkpoint whose state document is \<^verbatim>\<open>{"last_epoch_idx": 7}\<close>, without 'lr'.\<close>

definition lr_missing_files :: "(nat, nat) file_struct" where
  "lr_missing_files =
     \<lparr>weights_file = Content 9,
      optimizer_state_file = Content [(''state'', 2)],
      data_processor_state_file = Content \<lparr>json_last_epoch_idx = Some 7, json_lr = None\<rparr>\<rparr>"

section \<open>Checkpoints: \<open>save_state\<close> and \<open>load\<close>\<close>

lemmas load_defs = load_def DataProcessor_load_def load_weights_def load_state_dict_def
  state_dict_def update_lr_def

lemmas save_defs = save_state_def save_weights_def state_dict_def

lemma keys_filter: "keys (filter (\<lambda>(k, v). k \<in> K) d) = keys d \<inter> K"
  by (auto simp add: keys_def image_iff)

text \<open>
  What \<open>load\<close> does when all three files are readable and the state document has both
  keys.
\<close>

lemma load_present:
  assumes "weights_file fs = Content w" and "optimizer_state_file fs = Content blob"
    and "data_processor_state_file fs
           = Content \<lparr>json_last_epoch_idx = Some n, json_lr = Some r\<rparr>"
  shows "load fs s =
     (None, s\<lparr>weights := w,
               optimizer := (optimizer s)
                 \<lparr>opt_state := filter (\<lambda>(k, v). k \<in> keys (state_dict (optimizer s))) blob,
                  param_groups := map (\<lambda>param_group. param_group(''lr'' \<mapsto> r))
                                       (param_groups (optimizer s))\<rparr>,
               epoch_num := n,
               learning_rate := r\<rparr>)"
  using assms by (simp add: load_defs keys_def Let_def)

text \<open>
  The filtering of the optimizer blob comes before the state document is read: whatever
  that document is, the optimizer state after \<open>load\<close> is the filtered blob.
\<close>

lemma load_filters_blob:
  assumes "weights_file fs = Content w" and "optimizer_state_file fs = Content blob"
  shows "state_dict (optimizer (snd (load fs s)))
           = filter (\<lambda>(k, v). k \<in> keys (state_dict (optimizer s))) blob"
  using assms
  by (simp add: load_defs keys_def Let_def split: artifact.splits option.splits)

text \<open>Loading, into any instance, the checkpoint that \<open>save_state\<close> has just written.\<close>

lemma load_after_save:
  "load (save_state s fs) s0 =
     (None, s0\<lparr>weights := weights s,
                optimizer := (optimizer s0)
                  \<lparr>opt_state := filter (\<lambda>(k, v). k \<in> keys (opt_state (optimizer s0)))
                                        (opt_state (optimizer s)),
                   param_groups := map (\<lambda>param_group. param_group(''lr'' \<mapsto> learning_rate s))
                                        (param_groups (optimizer s0))\<rparr>,
                epoch_num := epoch_num s,
                learning_rate := learning_rate s\<rparr>)"
  by (simp add: load_defs save_defs keys_def Let_def)

lemma update_lr_frame:
  "epoch_num (update_lr x s) = epoch_num s"
  "learning_rate (update_lr x s) = learning_rate s"
  "group_lrs (update_lr x s) = replicate (length (param_groups (optimizer s))) (Some x)"
  by (simp_all add: update_lr_def group_lrs_def map_replicate_const comp_def)

text \<open>
  Claim C1, as amended. After \<open>save_state\<close> on an instance \<open>s\<close>, \<open>load\<close> on any
  other instance \<open>s0\<close> returns normally, and the loaded instance has the epoch index of
  \<open>s\<close> and the holder value of \<open>s\<close>; the learning rate of every one of its parameter
  groups is the holder value of \<open>s\<close> at the save (not the learning rates the parameter
  groups of \<open>s\<close> had).
\<close>

theorem save_load_roundtrip:
  "fst (load (save_state s fs) s0) = None \<and>
   epoch_num (snd (load (save_state s fs) s0)) = epoch_num s \<and>
   learning_rate (snd (load (save_state s fs) s0)) = learning_rate s \<and>
   (\<forall>r \<in> set (group_lrs (snd (load (save_state s fs) s0))). r = Some (learning_rate s))"
  by (auto simp add: load_after_save group_lrs_def)

theorem save_load_roundtrip_witness:
  "fst (load (save_state (update_lr (1 / 100) demo_processor) no_files) demo_processor) = None \<and>
   epoch_num (snd (load (save_state (update_lr (1 / 100) demo_processor) no_files) demo_processor)) = 0 \<and>
   learning_rate (snd (load (save_state (update_lr (1 / 100) demo_processor) no_files) demo_processor))
     = 1 / 10 \<and>
   group_lrs (snd (load (save_state (update_lr (1 / 100) demo_processor) no_files) demo_processor))
     = [Some (1 / 10)]"
  using save_load_roundtrip [of "update_lr (1 / 100) demo_processor" no_files demo_processor]
  by (simp add: load_after_save group_lrs_def update_lr_def demo_processor_def init_def
      demo_optimizer_def)

text \<open>
  Claim C1 as stated fails: the original has a holder at 0.1 and, after \<open>update_lr\<close>, a
  parameter group at 0.01; a new instance that loads its checkpoint has the group at 0.1.
\<close>

theorem save_load_group_lrs_counterexample:
  "group_lrs (snd (load (save_state (update_lr (1 / 100) demo_processor) no_files) demo_processor))
     \<noteq> group_lrs (update_lr (1 / 100) demo_processor)"
  by (simp add: load_after_save group_lrs_def update_lr_def demo_processor_def init_def
      demo_optimizer_def)

text \<open>
  Claim C2, as amended. After \<open>update_lr x\<close> and \<open>save_state\<close>, an instance that
  loads the checkpoint has a holder that reports what the holder of the original reported:
  \<open>update_lr\<close> does not reach the holder, and the holder's value is what is persisted.
\<close>

theorem update_lr_save_load_holder:
  "learning_rate (snd (load (save_state (update_lr x s) fs) s0)) = learning_rate s"
  by (simp add: load_after_save update_lr_frame)

text \<open>
  Claim C2 as stated fails: holder at 0.1, \<open>update_lr 0.01\<close>, \<open>save_state\<close>, \<open>load\<close>
  on a new instance: the holder restored does not report 0.01.
\<close>

theorem update_lr_save_load_counterexample:
  "learning_rate (snd (load (save_state (update_lr (1 / 100) demo_processor) no_files)
                        demo_processor)) \<noteq> 1 / 100"
  by (simp add: load_after_save update_lr_frame demo_processor_def init_def)

text \<open>
  Claim C6. With the weights readable and a state document that has both keys (as
  \<open>save_state\<close> writes it), and an optimizer blob whose keys strictly include the keys of
  the current optimizer's state: \<open>load\<close> returns normally, the optimizer state is the
  blob restricted to the keys of the current optimizer, and its keys are those of the
  current optimizer.
\<close>

theorem load_drops_stale_keys:
  assumes "weights_file fs = Content w" and "optimizer_state_file fs = Content blob"
    and "data_processor_state_file fs
           = Content \<lparr>json_last_epoch_idx = Some n, json_lr = Some r\<rparr>"
    and "keys (state_dict (optimizer s)) \<subset> keys blob"
  shows "fst (load fs s) = None \<and>
         state_dict (optimizer (snd (load fs s)))
           = filter (\<lambda>(k, v). k \<in> keys (state_dict (optimizer s))) blob \<and>
         keys (state_dict (optimizer (snd (load fs s)))) = keys (state_dict (optimizer s))"
proof -
  have "keys blob \<inter> keys (state_dict (optimizer s)) = keys (state_dict (optimizer s))"
    using assms(4) by blast
  then show ?thesis
    by (simp add: load_present [OF assms(1-3)] state_dict_def keys_filter)
qed

theorem load_drops_stale_keys_witness:
  "keys (state_dict (optimizer demo_processor))
     \<subset> keys [(''momentum'', 1::nat), (''state'', 2), (''extra'', 3)] \<and>
   fst (load stale_files demo_processor) = None \<and>
   state_dict (optimizer (snd (load stale_files demo_processor))) = [(''state'', 2)]"
proof -
  let ?blob = "[(''momentum'', 1::nat), (''state'', 2), (''extra'', 3)]"
  have k: "keys (state_dict (optimizer demo_processor)) \<subset> keys ?blob"
    by (auto simp add: keys_def state_dict_def demo_processor_def init_def demo_optimizer_def)
  have f: "filter (\<lambda>(k, v). k \<in> keys (state_dict (optimizer demo_processor))) ?blob
             = [(''state'', 2)]"
    by (simp add: keys_def state_dict_def demo_processor_def init_def demo_optimizer_def)
  have w: "weights_file stale_files = Content 9"
    and b: "optimizer_state_file stale_files = Content ?blob"
    and d: "data_processor_state_file stale_files
              = Content \<lparr>json_last_epoch_idx = Some 4, json_lr = Some (1 / 100)\<rparr>"
    by (simp_all add: stale_files_def)
  from load_drops_stale_keys [OF w b d k] have
    "fst (load stale_files demo_processor) = None"
    "state_dict (optimizer (snd (load stale_files demo_processor))) =
       filter (\<lambda>(k, v). k \<in> keys (state_dict (optimizer demo_processor))) ?blob"
    by blast+
  with k f show ?thesis by presburger
qed

text \<open>
  Claim C7. When a file of the checkpoint is absent (the weights, or the optimizer blob,
  or the state document behind a readable optimizer blob), \<open>load\<close> raises
  \<open>CheckpointMissing\<close> and the epoch counter of the instance is what it was.
\<close>

theorem load_missing_checkpoint:
  assumes "weights_file fs = Absent \<or> optimizer_state_file fs = Absent \<or>
           (optimizer_state_file fs \<noteq> Corrupt \<and> data_processor_state_file fs = Absent)"
  shows "fst (load fs s) = Some CheckpointMissing \<and> epoch_num (snd (load fs s)) = epoch_num s"
  using assms by (auto simp add: load_defs Let_def split: artifact.splits option.splits)

theorem load_missing_checkpoint_witness:
  "weights_file no_files = Absent \<and>
   fst (load no_files (demo_processor\<lparr>epoch_num := 5\<rparr>)) = Some CheckpointMissing \<and>
   epoch_num (snd (load no_files (demo_processor\<lparr>epoch_num := 5\<rparr>))) = 5"
  using load_missing_checkpoint [of no_files "demo_processor\<lparr>epoch_num := 5\<rparr>"]
  by (simp add: no_files_def)

section \<open>The outcomes of \<open>process_batch\<close>\<close>

lemma predict_eq:
  "predict env data is_train s =
     (case data ''data'' of
        None \<Rightarrow> (Inl (KeyError ''data''), data,
                 s\<lparr>model_mode := (if is_train then TrainMode else EvalMode)\<rparr>)
      | Some d \<Rightarrow>
          (forward env (if is_train then TrainMode else EvalMode) is_train (weights s)
             (if is_cuda s then process_data d else d),
           (if is_cuda s then data(''data'' \<mapsto> process_data d) else data),
           s\<lparr>model_mode := (if is_train then TrainMode else EvalMode),
             calls := calls s @ [Forward]\<rparr>))"
  by (simp add: predict_def DataProcessor_predict_def make_predict_def Let_def split: option.splits)

lemma pb_no_target_cuda:
  "is_cuda s \<Longrightarrow> batch ''target'' = None \<Longrightarrow>
   process_batch env batch is_train s = (Some (KeyError ''target''), batch, s)"
  by (simp add: process_batch_def)

lemma pb_no_data:
  "\<not> (is_cuda s \<and> batch ''target'' = None) \<Longrightarrow> batch ''data'' = None \<Longrightarrow>
   process_batch env batch is_train s =
     (Some (KeyError ''data''), at_target batch s, (after_reset is_train s)\<lparr>model_mode := mode_for is_train\<rparr>)"
  by (cases "is_cuda s"; cases "batch ''target''"; cases is_train)
     (simp_all add: process_batch_def predict_eq at_target_def after_reset_def mode_for_def)

lemma pb_forward_fails:
  "\<not> (is_cuda s \<and> batch ''target'' = None) \<Longrightarrow> batch ''data'' = Some d \<Longrightarrow>
   forward env (mode_for is_train) is_train (weights s) (if is_cuda s then process_data d else d) = Inl e \<Longrightarrow>
   process_batch env batch is_train s = (Some e, at_data batch s, after_forward is_train s)"
  by (cases "is_cuda s"; cases "batch ''target''"; cases is_train)
     (simp_all add: process_batch_def predict_eq at_target_def at_data_def after_reset_def after_forward_def mode_for_def)

lemma pb_no_target_cpu:
  "\<not> is_cuda s \<Longrightarrow> batch ''target'' = None \<Longrightarrow> batch ''data'' = Some d \<Longrightarrow>
   forward env (mode_for is_train) is_train (weights s) d = Inr res \<Longrightarrow>
   process_batch env batch is_train s = (Some (KeyError ''target''), batch, after_forward is_train s)"
  by (cases is_train)
     (simp_all add: process_batch_def predict_eq at_target_def at_data_def after_reset_def after_forward_def mode_for_def)

lemma pb_metrics_fails:
  "batch ''target'' = Some t \<Longrightarrow> batch ''data'' = Some d \<Longrightarrow>
   forward env (mode_for is_train) is_train (weights s) (if is_cuda s then process_data d else d) = Inr res \<Longrightarrow>
   calc_metrics env res (if is_cuda s then process_data t else t) is_train = Some e \<Longrightarrow>
   process_batch env batch is_train s =
     (Some e, at_data batch s, (after_forward is_train s)\<lparr>calls := calls (after_forward is_train s) @ [Metrics]\<rparr>)"
  by (cases "is_cuda s"; cases is_train)
     (simp_all add: process_batch_def predict_eq at_target_def at_data_def after_reset_def after_forward_def mode_for_def)

lemma pb_criterion_fails:
  "batch ''target'' = Some t \<Longrightarrow> batch ''data'' = Some d \<Longrightarrow>
   forward env (mode_for is_train) is_train (weights s) (if is_cuda s then process_data d else d) = Inr res \<Longrightarrow>
   calc_metrics env res (if is_cuda s then process_data t else t) is_train = None \<Longrightarrow>
   criterion env res (if is_cuda s then process_data t else t) = Inl e \<Longrightarrow>
   process_batch env batch is_train s =
     (Some e, at_data batch s, (after_forward is_train s)\<lparr>calls := calls (after_forward is_train s) @ [Metrics, Loss]\<rparr>)"
  by (cases "is_cuda s"; cases is_train)
     (simp_all add: process_batch_def predict_eq at_target_def at_data_def after_reset_def after_forward_def mode_for_def)


lemma pb_completed:
  "batch ''target'' = Some t \<Longrightarrow> batch ''data'' = Some d \<Longrightarrow>
   forward env (mode_for is_train) is_train (weights s) (if is_cuda s then process_data d else d) = Inr res \<Longrightarrow>
   calc_metrics env res (if is_cuda s then process_data t else t) is_train = None \<Longrightarrow>
   criterion env res (if is_cuda s then process_data t else t) = Inr (v, g) \<Longrightarrow>
   process_batch env batch is_train s = (None, at_data batch s, completed env is_train v g s)"
  by (cases "is_cuda s"; cases is_train)
     (simp_all add: process_batch_def predict_eq at_target_def at_data_def after_reset_def
        after_forward_def mode_for_def completed_def Let_def)

lemma process_batch_cases [case_names no_target_cuda no_data forward_fails no_target_cpu
    metrics_fails criterion_fails completed]:
  obtains
    "is_cuda s" "batch ''target'' = None"
    "process_batch env batch is_train s = (Some (KeyError ''target''), batch, s)"
  | "batch ''data'' = None"
    "process_batch env batch is_train s =
       (Some (KeyError ''data''), at_target batch s,
        (after_reset is_train s)\<lparr>model_mode := mode_for is_train\<rparr>)"
  | e where
    "process_batch env batch is_train s = (Some e, at_data batch s, after_forward is_train s)"
  | "\<not> is_cuda s" "batch ''target'' = None"
    "process_batch env batch is_train s =
       (Some (KeyError ''target''), batch, after_forward is_train s)"
  | t d res e where "batch ''target'' = Some t" "batch ''data'' = Some d"
    "forward env (mode_for is_train) is_train (weights s)
       (if is_cuda s then process_data d else d) = Inr res"
    "calc_metrics env res (if is_cuda s then process_data t else t) is_train = Some e"
    "process_batch env batch is_train s =
       (Some e, at_data batch s,
        (after_forward is_train s)\<lparr>calls := calls (after_forward is_train s) @ [Metrics]\<rparr>)"
  | t d res e where "batch ''target'' = Some t" "batch ''data'' = Some d"
    "forward env (mode_for is_train) is_train (weights s)
       (if is_cuda s then process_data d else d) = Inr res"
    "calc_metrics env res (if is_cuda s then process_data t else t) is_train = None"
    "criterion env res (if is_cuda s then process_data t else t) = Inl e"
    "process_batch env batch is_train s =
       (Some e, at_data batch s,
        (after_forward is_train s)\<lparr>calls := calls (after_forward is_train s) @ [Metrics, Loss]\<rparr>)"
  | t d res v g where "batch ''target'' = Some t" "batch ''data'' = Some d"
    "forward env (mode_for is_train) is_train (weights s)
       (if is_cuda s then process_data d else d) = Inr res"
    "calc_metrics env res (if is_cuda s then process_data t else t) is_train = None"
    "criterion env res (if is_cuda s then process_data t else t) = Inr (v, g)"
    "process_batch env batch is_train s = (None, at_data batch s, completed env is_train v g s)"
proof (cases "is_cuda s \<and> batch ''target'' = None")
  case True
  then have c: "is_cuda s" and tn: "batch ''target'' = None" by simp_all
  show ?thesis by (rule that(1) [OF c tn pb_no_target_cuda [where s=s and batch=batch, OF c tn]])
next
  case nt: False
  show ?thesis
  proof (cases "batch ''data''")
    case dn: None
    show ?thesis by (rule that(2) [OF dn pb_no_data [where s=s and batch=batch, OF nt dn]])
  next
    case ds: (Some d)
    show ?thesis
    proof (cases "forward env (mode_for is_train) is_train (weights s)
                    (if is_cuda s then process_data d else d)")
      case fl: (Inl e)
      show ?thesis by (rule that(3) [OF pb_forward_fails [where s=s and batch=batch, OF nt ds fl]])
    next
      case fr: (Inr res)
      show ?thesis
      proof (cases "batch ''target''")
        case tn: None
        with nt have c: "\<not> is_cuda s" by simp
        from fr c have fr': "forward env (mode_for is_train) is_train (weights s) d = Inr res"
          by simp
        show ?thesis by (rule that(4) [OF c tn pb_no_target_cpu [where s=s and batch=batch, OF c tn ds fr']])
      next
        case tg: (Some t)
        show ?thesis
        proof (cases "calc_metrics env res (if is_cuda s then process_data t else t) is_train")
          case ms: (Some e)
          show ?thesis by (rule that(5) [OF tg ds fr ms pb_metrics_fails [where s=s and batch=batch, OF tg ds fr ms]])
        next
          case mn: None
          show ?thesis
          proof (cases "criterion env res (if is_cuda s then process_data t else t)")
            case cl: (Inl e)
            show ?thesis by (rule that(6) [OF tg ds fr mn cl pb_criterion_fails [where s=s and batch=batch, OF tg ds fr mn cl]])
          next
            case cr: (Inr p)
            obtain v g where p: "p = (v, g)" by (cases p)
            note cr' = cr [unfolded p]
            show ?thesis by (rule that(7) [OF tg ds fr mn cr' pb_completed [where s=s and batch=batch, OF tg ds fr mn cr']])
          qed
        qed
      qed
    qed
  qed
qed

lemma process_batch_epoch:
  "epoch_num (snd (snd (process_batch env batch is_train s))) = epoch_num s"
  by (cases rule: process_batch_cases [of s batch env is_train])
     (simp_all add: after_forward_def after_reset_def completed_def step_def Let_def)


lemmas point_defs = after_forward_def after_reset_def completed_def step_def mode_for_def
  backward_def zero_grad_def Let_def

lemma process_batch_frame:
  "learning_rate (snd (snd (process_batch env batch is_train s))) = learning_rate s \<and>
   is_cuda (snd (snd (process_batch env batch is_train s))) = is_cuda s \<and>
   param_groups (optimizer (snd (snd (process_batch env batch is_train s))))
     = param_groups (optimizer s)"
  by (cases rule: process_batch_cases [of s batch env is_train]) (simp_all add: point_defs)

lemma process_batch_failed:
  assumes "process_batch env batch is_train s = (Some e, b', s')"
  shows "train_loss_values s' = train_loss_values s \<and> val_loss_values s' = val_loss_values s \<and>
         weights s' = weights s \<and> opt_state (optimizer s') = opt_state (optimizer s)"
  using assms
  by (cases rule: process_batch_cases [of s batch env is_train]) (auto simp add: point_defs)

lemma process_batch_returned:
  assumes "process_batch env batch is_train s = (None, b', s')"
  shows "\<exists>res tgt v g. b' ''target'' = Some tgt \<and> calc_metrics env res tgt is_train = None \<and>
           criterion env res tgt = Inr (v, g) \<and> s' = completed env is_train v g s"
  using assms
proof (cases rule: process_batch_cases [of s batch env is_train])
  case (completed t d res v g)
  have "at_data batch s ''target'' = Some (if is_cuda s then process_data t else t)"
    using completed(1,2) by (simp add: at_data_def at_target_def)
  with completed assms show ?thesis by auto
qed simp_all

lemma run_batches_epoch:
  "epoch_num (snd (run_batches env is_train batches s)) = epoch_num s"
proof (induction batches arbitrary: s)
  case Nil
  show ?case by simp
next
  case (Cons b bs)
  obtain r b' s' where pb: "process_batch env b is_train s = (r, b', s')"
    by (cases "process_batch env b is_train s") auto
  have e: "epoch_num s' = epoch_num s"
    using process_batch_epoch [of env b is_train s] pb by simp
  show ?case
    using Cons.IH [of s'] e pb by (cases is_train) (simp_all split: option.splits sum.splits)
qed

lemma train_epoch_epoch:
  "epoch_num (snd (train_epoch env tr va idx nm s))
     = (if fst (train_epoch env tr va idx nm s) = None then idx else epoch_num s)"
proof -
  obtain r1 s1 where a: "run_batches env True tr s = (r1, s1)" by (cases "run_batches env True tr s")
  obtain r2 s2 where b: "run_batches env False va s1 = (r2, s2)" by (cases "run_batches env False va s1")
  have e1: "epoch_num s1 = epoch_num s" using run_batches_epoch [of env True tr s] a by simp
  have e2: "epoch_num s2 = epoch_num s1" using run_batches_epoch [of env False va s1] b by simp
  show ?thesis using a b e1 e2 by (simp add: train_epoch_def split: option.splits)
qed

lemma load_epoch:
  "epoch_num (snd (load fs s)) =
     (case weights_file fs of
        Content w \<Rightarrow>
          (case optimizer_state_file fs of
             Content blob \<Rightarrow>
               (case data_processor_state_file fs of
                  Content dp \<Rightarrow>
                    (case json_last_epoch_idx dp of
                       Some n \<Rightarrow> n
                     | None \<Rightarrow> epoch_num s)
                | Absent \<Rightarrow> epoch_num s
                | Corrupt \<Rightarrow> epoch_num s)
           | Absent \<Rightarrow> epoch_num s
           | Corrupt \<Rightarrow> epoch_num s)
      | Absent \<Rightarrow> epoch_num s
      | Corrupt \<Rightarrow> epoch_num s)"
  by (simp add: load_defs Let_def split: artifact.splits option.splits)

lemma predict_epoch: "epoch_num (snd (snd (predict env batch is_train s))) = epoch_num s"
  by (simp add: predict_eq split: option.splits)


section \<open>Loss histories\<close>

lemmas demo_defs = demo_env_def failing_metrics_env_def demo_batch_def demo_processor_def
  demo_optimizer_def init_def np_array_empty_def

lemma demo_train_batch:
  "process_batch demo_env demo_batch True demo_processor =
     (None, at_data demo_batch demo_processor, completed demo_env True 3 3 demo_processor)"
proof -
  have "process_batch demo_env demo_batch True demo_processor =
     (None, at_data demo_batch demo_processor, completed demo_env True (real 3) 3 demo_processor)"
    by (rule pb_completed [where t = "Dict [(''mask'', Leaf (Tensor 2 Cpu)), (''aux'', Dict [(''w'', Leaf (Tensor 4 Cpu))])]"
          and d = "Leaf (Tensor 1 Cpu)" and res = 3])
       (simp_all add: demo_defs mode_for_def)
  then show ?thesis by simp
qed

text \<open>
  What the code does to the histories: a call that returns appends exactly one element to
  the history of its phase and leaves the other one; a call that raises appends nothing
  (\<open>process_batch_failed\<close>).
\<close>

lemma process_batch_appends_one:
  assumes "process_batch env batch is_train s = (None, b', s')"
  shows "\<exists>v. (if is_train
              then ravel (train_loss_values s') = ravel (train_loss_values s) @ [v] \<and>
                   val_loss_values s' = val_loss_values s
              else ravel (val_loss_values s') = ravel (val_loss_values s) @ [v] \<and>
                   train_loss_values s' = train_loss_values s)"
proof -
  from process_batch_returned [OF assms]
  obtain v g where "s' = completed env is_train v g s" by blast
  then show ?thesis by (auto simp add: point_defs np_append_def)
qed

text \<open>
  Claim C3 fails on the code at this input: a new processor, one training batch that
  completes. The loss (3) is appended to the train history, and \<open>get_losses\<close> returns
  that history under the key 'validation'; the sequence under 'train' is still empty.
\<close>

theorem train_loss_under_validation_key:
  "fst (process_batch demo_env demo_batch True demo_processor) = None \<and>
   get_losses (snd (snd (process_batch demo_env demo_batch True demo_processor))) ''train''
     = Some (Arr1 []) \<and>
   get_losses (snd (snd (process_batch demo_env demo_batch True demo_processor))) ''validation''
     = Some (Arr1 [3])"
  unfolding demo_train_batch
  by (simp add: get_losses_def point_defs np_append_def demo_defs)

lemma demo_train_batch_after_reset:
  "process_batch demo_env demo_batch True (reset_losses u_val u_train demo_processor) =
     (None, at_data demo_batch (reset_losses u_val u_train demo_processor),
      completed demo_env True 3 3 (reset_losses u_val u_train demo_processor))"
proof -
  have "process_batch demo_env demo_batch True (reset_losses u_val u_train demo_processor) =
     (None, at_data demo_batch (reset_losses u_val u_train demo_processor),
      completed demo_env True (real 3) 3 (reset_losses u_val u_train demo_processor))"
    by (rule pb_completed
          [where t = "Dict [(''mask'', Leaf (Tensor 2 Cpu)),
                            (''aux'', Dict [(''w'', Leaf (Tensor 4 Cpu))])]"
             and d = "Leaf (Tensor 1 Cpu)" and res = 3])
       (simp_all add: demo_defs mode_for_def reset_losses_def)
  then show ?thesis by simp
qed

text \<open>
  Claim C4 fails on the code at every input: after \<open>reset_losses\<close> the two entries of
  \<open>get_losses\<close> are 0-dimensional arrays, each holding one (uninitialised) element, not
  empty sequences; the history of the next training batch then has two elements, the
  uninitialised one first.
\<close>

theorem reset_losses_not_empty:
  "get_losses (reset_losses u_val u_train s) ''train'' = Some (Arr0 u_val) \<and>
   get_losses (reset_losses u_val u_train s) ''validation'' = Some (Arr0 u_train) \<and>
   ravel (Arr0 u_val) = [u_val] \<and> ravel (Arr0 u_train) = [u_train] \<and>
   Arr0 u_val \<noteq> np_array_empty \<and> Arr0 u_train \<noteq> np_array_empty \<and>
   train_loss_values
     (snd (snd (process_batch demo_env demo_batch True
                  (reset_losses u_val u_train demo_processor))))
     = Arr1 [u_train, 3]"
  unfolding demo_train_batch_after_reset
  by (simp add: get_losses_def reset_losses_def np_ndarray_shape_empty_def np_array_empty_def
      point_defs np_append_def)

section \<open>The order of a training batch\<close>

text \<open>
  Claim C5. Every call of \<open>process_batch\<close> with \<open>is_train\<close> performs its steps in
  the order gradient reset, forward, metrics, loss, backward, optimizer step, history
  append. A call that returns performs all of them, and the gradients accumulated when the
  optimizer step is applied are the contribution of this batch's loss alone, whatever was
  accumulated before the call. A call that raises stops inside the first four.
\<close>

theorem process_batch_train_order:
  assumes "process_batch env batch True s = (r, b', s')"
  shows "(case r of
            None \<Rightarrow> (\<exists>res tgt v g. b' ''target'' = Some tgt \<and> criterion env res tgt = Inr (v, g) \<and>
                       calls s' = calls s @ [ZeroGrad, Forward, Metrics, Loss, Backward, Step [g],
                                             HistoryAppend True])
          | Some e \<Rightarrow> (\<exists>n. calls s' = calls s @ take n [ZeroGrad, Forward, Metrics, Loss]))"
proof (cases r)
  case None
  from process_batch_returned [OF assms [unfolded None]]
  obtain res tgt v g where h: "b' ''target'' = Some tgt" "criterion env res tgt = Inr (v, g)"
    "s' = completed env True v g s" by blast
  have "calls s' = calls s @ [ZeroGrad, Forward, Metrics, Loss, Backward, Step [g], HistoryAppend True]"
    by (simp add: h(3) point_defs)
  with h None show ?thesis by auto
next
  case (Some e)
  have "\<exists>n. calls s' = calls s @ take n [ZeroGrad, Forward, Metrics, Loss]"
    using assms [unfolded Some]
  proof (cases rule: process_batch_cases [of s batch env True])
    case no_target_cuda
    with assms Some have "calls s' = calls s @ take 0 [ZeroGrad, Forward, Metrics, Loss]" by simp
    then show ?thesis by blast
  next
    case no_data
    with assms Some have "calls s' = calls s @ take 1 [ZeroGrad, Forward, Metrics, Loss]"
      by (auto simp add: point_defs)
    then show ?thesis by blast
  next
    case (forward_fails e)
    with assms Some have "calls s' = calls s @ take 2 [ZeroGrad, Forward, Metrics, Loss]"
      by (auto simp add: point_defs)
    then show ?thesis by blast
  next
    case no_target_cpu
    with assms Some have "calls s' = calls s @ take 2 [ZeroGrad, Forward, Metrics, Loss]"
      by (auto simp add: point_defs)
    then show ?thesis by blast
  next
    case (metrics_fails t d res e)
    with assms Some have "calls s' = calls s @ take 3 [ZeroGrad, Forward, Metrics, Loss]"
      by (auto simp add: point_defs)
    then show ?thesis by blast
  next
    case (criterion_fails t d res e)
    with assms Some have "calls s' = calls s @ take 4 [ZeroGrad, Forward, Metrics, Loss]"
      by (auto simp add: point_defs)
    then show ?thesis by blast
  next
    case (completed t d res v g)
    with assms Some show ?thesis by simp
  qed
  with Some show ?thesis by simp
qed

theorem process_batch_train_order_witness:
  "calls demo_processor = [] \<and> grads (optimizer demo_processor) = [5] \<and>
   fst (process_batch demo_env demo_batch True demo_processor) = None \<and>
   calls (snd (snd (process_batch demo_env demo_batch True demo_processor)))
     = [ZeroGrad, Forward, Metrics, Loss, Backward, Step [3], HistoryAppend True]"
proof -
  have c: "calls (completed demo_env True 3 3 demo_processor)
             = [ZeroGrad, Forward, Metrics, Loss, Backward, Step [3], HistoryAppend True]"
    by (simp add: point_defs demo_defs)
  have "calls demo_processor = []" "grads (optimizer demo_processor) = [5]"
    by (simp_all add: demo_defs)
  with c process_batch_train_order [OF demo_train_batch] show ?thesis
    by (simp add: demo_train_batch)
qed

section \<open>A failure of the metrics processor\<close>

lemma failing_metrics_batch:
  "process_batch failing_metrics_env demo_batch True demo_processor =
     (Some MetricsFailure, at_data demo_batch demo_processor,
      (after_forward True demo_processor)
        \<lparr>calls := calls (after_forward True demo_processor) @ [Metrics]\<rparr>)"
  by (rule pb_metrics_fails [where t = "Dict [(''mask'', Leaf (Tensor 2 Cpu)), (''aux'', Dict [(''w'', Leaf (Tensor 4 Cpu))])]"
        and d = "Leaf (Tensor 1 Cpu)" and res = 3])
     (simp_all add: demo_defs mode_for_def)

text \<open>
  Claim C9 as stated fails: with a metrics processor that raises, a training batch on a new
  processor raises that error after the forward pass; the loss is not computed, no
  optimizer step runs (the weights are what they were) and nothing is appended to the
  history.
\<close>

theorem metrics_failure_counterexample:
  "fst (process_batch failing_metrics_env demo_batch True demo_processor) = Some MetricsFailure \<and>
   train_loss_values (snd (snd (process_batch failing_metrics_env demo_batch True demo_processor)))
     = train_loss_values demo_processor \<and>
   weights (snd (snd (process_batch failing_metrics_env demo_batch True demo_processor)))
     = weights demo_processor \<and>
   calls (snd (snd (process_batch failing_metrics_env demo_batch True demo_processor)))
     = [ZeroGrad, Forward, Metrics]"
  unfolding failing_metrics_batch by (simp add: point_defs demo_defs)

text \<open>
  Claim C9, as amended. When the forward pass has returned \<open>res\<close> and \<open>calc_metrics\<close>
  raises \<open>e\<close> on it, \<open>process_batch\<close> raises \<open>e\<close>: the exception propagates to the
  caller. The batch stops there: neither history grows, the weights and the optimizer state
  are unchanged, and the steps performed are the gradient reset (when training), the
  forward pass and the metrics call.
\<close>

theorem metrics_failure_aborts_batch:
  assumes "batch ''target'' = Some t" and "batch ''data'' = Some d"
    and "forward env (if is_train then TrainMode else EvalMode) is_train (weights s)
           (if is_cuda s then process_data d else d) = Inr res"
    and "calc_metrics env res (if is_cuda s then process_data t else t) is_train = Some e"
  shows "fst (process_batch env batch is_train s) = Some e \<and>
         train_loss_values (snd (snd (process_batch env batch is_train s))) = train_loss_values s \<and>
         val_loss_values (snd (snd (process_batch env batch is_train s))) = val_loss_values s \<and>
         weights (snd (snd (process_batch env batch is_train s))) = weights s \<and>
         opt_state (optimizer (snd (snd (process_batch env batch is_train s))))
           = opt_state (optimizer s) \<and>
         calls (snd (snd (process_batch env batch is_train s)))
           = calls s @ (if is_train then [ZeroGrad] else []) @ [Forward, Metrics]"
proof -
  have f: "forward env (mode_for is_train) is_train (weights s)
             (if is_cuda s then process_data d else d) = Inr res"
    using assms(3) by (simp add: mode_for_def)
  show ?thesis
    unfolding pb_metrics_fails [where s=s and batch=batch, OF assms(1,2) f assms(4)]
    by (simp add: point_defs)
qed

theorem metrics_failure_aborts_batch_witness:
  "fst (process_batch failing_metrics_env demo_batch True demo_processor) = Some MetricsFailure \<and>
   train_loss_values (snd (snd (process_batch failing_metrics_env demo_batch True demo_processor)))
     = Arr1 [] \<and>
   val_loss_values (snd (snd (process_batch failing_metrics_env demo_batch True demo_processor)))
     = Arr1 []"
  using metrics_failure_aborts_batch [where env = failing_metrics_env and batch = demo_batch and is_train = True
      and s = demo_processor and res = 3 and e = MetricsFailure
      and d = "Leaf (Tensor 1 Cpu)"
      and t = "Dict [(''mask'', Leaf (Tensor 2 Cpu)), (''aux'', Dict [(''w'', Leaf (Tensor 4 Cpu))])]"]
  by (simp add: demo_defs)


section \<open>The epoch counter\<close>

lemmas eval_defs = train_epoch_def process_batch_def predict_def DataProcessor_predict_def
  make_predict_def step_def backward_def zero_grad_def np_append_def Let_def

text \<open>
  Claim C8 as stated fails: \<open>train_epoch\<close> with index 2 after \<open>train_epoch\<close> with
  index 5 lowers the counter, and \<open>load\<close> changes the counter of a new instance.
\<close>

theorem epoch_counter_counterexample:
  "epoch_num (snd (train_epoch demo_env [demo_batch] [demo_batch] 2 None
                     (snd (train_epoch demo_env [demo_batch] [demo_batch] 5 None demo_processor))))
     < epoch_num (snd (train_epoch demo_env [demo_batch] [demo_batch] 5 None demo_processor)) \<and>
   epoch_num (snd (load stale_files demo_processor)) \<noteq> epoch_num demo_processor"
  by (simp add: eval_defs demo_defs load_defs stale_files_def)

text \<open>
  Claim C8, as amended. The operations that return the object's state: \<open>predict\<close> (of
  both classes), \<open>process_batch\<close>, \<open>update_lr\<close> and \<open>reset_losses\<close> leave the epoch
  counter as it was; \<open>train_epoch\<close> sets it to the index the caller passes when both
  phases completed, and leaves it when a batch raised; \<open>load\<close> sets it to the persisted
  index once the weights, the optimizer blob and a state document with the key
  'last_epoch_idx' have been read (also when \<open>load\<close> then raises on a missing 'lr'),
  and leaves it when it raises before that.
\<close>

theorem epoch_counter_writers:
  "epoch_num (snd (snd (predict env batch is_train s))) = epoch_num s \<and>
   epoch_num (snd (snd (DataProcessor_predict env batch s))) = epoch_num s \<and>
   epoch_num (snd (snd (process_batch env batch is_train s))) = epoch_num s \<and>
   epoch_num (update_lr x s) = epoch_num s \<and>
   epoch_num (reset_losses u_val u_train s) = epoch_num s \<and>
   epoch_num (snd (train_epoch env tr va idx nm s))
     = (if fst (train_epoch env tr va idx nm s) = None then idx else epoch_num s) \<and>
   epoch_num (snd (load fs s))
     = (case weights_file fs of
          Content w \<Rightarrow>
            (case optimizer_state_file fs of
               Content blob \<Rightarrow>
                 (case data_processor_state_file fs of
                    Content dp \<Rightarrow>
                      (case json_last_epoch_idx dp of
                         Some n \<Rightarrow> n
                       | None \<Rightarrow> epoch_num s)
                  | Absent \<Rightarrow> epoch_num s
                  | Corrupt \<Rightarrow> epoch_num s)
             | Absent \<Rightarrow> epoch_num s
             | Corrupt \<Rightarrow> epoch_num s)
        | Absent \<Rightarrow> epoch_num s
        | Corrupt \<Rightarrow> epoch_num s)"
proof -
  have "epoch_num (snd (snd (DataProcessor_predict env batch s))) = epoch_num s"
    by (simp add: DataProcessor_predict_def make_predict_def Let_def split: option.splits)
  moreover have "epoch_num (reset_losses u_val u_train s) = epoch_num s"
    by (simp add: reset_losses_def)
  moreover note predict_epoch [of env batch is_train s]
    process_batch_epoch [of env batch is_train s] update_lr_frame(1) [of x s]
    train_epoch_epoch [of env tr va idx nm s] load_epoch [of fs s]
  ultimately show ?thesis by (intro conjI)
qed

text \<open>
  At concrete inputs: a completed epoch sets the counter to 5; a \<open>load\<close> with no files
  raises and leaves it at 5; a \<open>load\<close> of a complete checkpoint sets it to 4; a
  \<open>load\<close> of a checkpoint whose state document lacks 'lr' raises KeyError and has set it
  to 7.
\<close>

theorem epoch_counter_writers_witness:
  "epoch_num (snd (train_epoch demo_env [demo_batch] [demo_batch] 5 None demo_processor)) = 5 \<and>
   fst (load no_files (demo_processor\<lparr>epoch_num := 5\<rparr>)) = Some CheckpointMissing \<and>
   epoch_num (snd (load no_files (demo_processor\<lparr>epoch_num := 5\<rparr>))) = 5 \<and>
   fst (load stale_files demo_processor) = None \<and>
   epoch_num (snd (load stale_files demo_processor)) = 4 \<and>
   fst (load lr_missing_files demo_processor) = Some (KeyError ''lr'') \<and>
   epoch_num (snd (load lr_missing_files demo_processor)) = 7"
  using epoch_counter_writers [of demo_env demo_batch True demo_processor 0 0 0
      "[demo_batch]" "[demo_batch]" 5 None stale_files]
    epoch_counter_writers [of demo_env demo_batch True "demo_processor\<lparr>epoch_num := 5\<rparr>" 0 0 0
      "[]" "[]" 5 None no_files]
    epoch_counter_writers [of demo_env demo_batch True demo_processor 0 0 0
      "[]" "[]" 5 None lr_missing_files]
  by (simp add: eval_defs demo_defs load_defs stale_files_def no_files_def lr_missing_files_def)

section \<open>Device transfer of the caller's batch\<close>

lemma bypass_leaves:
  "concat (map (leaves \<circ> snd) (dict_recursive_bypass kvs f))
     = map f (concat (map (leaves \<circ> snd) kvs))"
  by (induction kvs f rule: dict_recursive_bypass.induct) (simp_all add: comp_def)

lemma leaves_process_data: "leaves (process_data v) = map (to Cuda0) (leaves v)"
  by (cases v) (simp_all add: bypass_leaves)

lemma to_device: "device_of (to dev x) = dev" "payload (to dev x) = payload x"
  by (cases x; simp)+

lemma process_batch_target:
  assumes "is_cuda s" and "batch ''target'' = Some t"
  shows "fst (snd (process_batch env batch is_train s)) ''target'' = Some (process_data t)"
  using assms
  by (cases rule: process_batch_cases [of s batch env is_train])
     (simp_all add: at_data_def at_target_def split: option.splits)

lemma process_batch_both:
  assumes "is_cuda s" and "batch ''target'' = Some t" and "batch ''data'' = Some d"
  shows "fst (snd (process_batch env batch is_train s))
           = batch(''target'' \<mapsto> process_data t, ''data'' \<mapsto> process_data d)"
  using assms
  by (cases rule: process_batch_cases [of s batch env is_train])
     (simp_all add: at_data_def at_target_def split: option.splits)

text \<open>
  Claim C10. With device acceleration enabled, the batch dict the caller passed holds,
  after \<open>predict\<close> (of either class), the transferred value under 'data', and after
  \<open>process_batch\<close> the transferred value under 'target' (and under 'data' as well, when
  the batch has both keys), whether or not the call raised later. The transferred value has
  every leaf tensor on the device, with the payloads unchanged.
\<close>

theorem cuda_batch_transferred_in_place:
  assumes "is_cuda s"
  shows "(batch ''data'' = Some d \<longrightarrow>
            fst (snd (predict env batch is_train s)) = batch(''data'' \<mapsto> process_data d) \<and>
            fst (snd (DataProcessor_predict env batch s)) = batch(''data'' \<mapsto> process_data d)) \<and>
         (batch ''target'' = Some t \<longrightarrow>
            fst (snd (process_batch env batch is_train s)) ''target'' = Some (process_data t)) \<and>
         (batch ''target'' = Some t \<and> batch ''data'' = Some d \<longrightarrow>
            fst (snd (process_batch env batch is_train s))
              = batch(''target'' \<mapsto> process_data t, ''data'' \<mapsto> process_data d)) \<and>
         (\<forall>x \<in> set (leaves (process_data v)). device_of x = Cuda0) \<and>
         map payload (leaves (process_data v)) = map payload (leaves v)"
proof -
  have "batch ''data'' = Some d \<Longrightarrow>
          fst (snd (predict env batch is_train s)) = batch(''data'' \<mapsto> process_data d)"
    using assms by (simp add: predict_eq)
  moreover have "batch ''data'' = Some d \<Longrightarrow>
          fst (snd (DataProcessor_predict env batch s)) = batch(''data'' \<mapsto> process_data d)"
    using assms by (simp add: DataProcessor_predict_def make_predict_def Let_def)
  moreover have "\<forall>x \<in> set (leaves (process_data v)). device_of x = Cuda0"
    by (auto simp add: leaves_process_data to_device)
  moreover have "map payload (leaves (process_data v)) = map payload (leaves v)"
    by (simp add: leaves_process_data to_device comp_def)
  ultimately show ?thesis
    using process_batch_target [OF assms, where batch=batch and t=t and env=env
        and is_train=is_train]
      process_batch_both [OF assms, where batch=batch and t=t and env=env
        and is_train=is_train and d=d] by blast
qed

theorem cuda_batch_transferred_in_place_witness:
  "is_cuda demo_processor \<and>
   demo_batch ''data'' = Some (Leaf (Tensor 1 Cpu)) \<and>
   fst (snd (predict demo_env demo_batch False demo_processor)) ''data''
     = Some (Leaf (Tensor 1 Cuda0)) \<and>
   fst (snd (process_batch demo_env demo_batch True demo_processor)) ''target''
     = Some (Dict [(''mask'', Leaf (Tensor 2 Cuda0)), (''aux'', Dict [(''w'', Leaf (Tensor 4 Cuda0))])])"
proof -
  have c: "is_cuda demo_processor" by (simp add: demo_defs)
  have d: "demo_batch ''data'' = Some (Leaf (Tensor 1 Cpu))" by (simp add: demo_defs)
  have t: "demo_batch ''target''
             = Some (Dict [(''mask'', Leaf (Tensor 2 Cpu)), (''aux'', Dict [(''w'', Leaf (Tensor 4 Cpu))])])"
    by (simp add: demo_defs)
  from cuda_batch_transferred_in_place [OF c, of demo_batch "Leaf (Tensor 1 Cpu)" demo_env False
      "Dict [(''mask'', Leaf (Tensor 2 Cpu)), (''aux'', Dict [(''w'', Leaf (Tensor 4 Cpu))])]" ] d
  have p: "fst (snd (predict demo_env demo_batch False demo_processor))
             = demo_batch(''data'' \<mapsto> process_data (Leaf (Tensor 1 Cpu)))" by blast
  from cuda_batch_transferred_in_place [OF c, of demo_batch "Leaf (Tensor 1 Cpu)" demo_env True
      "Dict [(''mask'', Leaf (Tensor 2 Cpu)), (''aux'', Dict [(''w'', Leaf (Tensor 4 Cpu))])]" ] t
  have q: "fst (snd (process_batch demo_env demo_batch True demo_processor)) ''target''
             = Some (process_data (Dict [(''mask'', Leaf (Tensor 2 Cpu)), (''aux'', Dict [(''w'', Leaf (Tensor 4 Cpu))])]))"
    by blast
  show ?thesis using c d by (simp add: p q)
qed


end
